theory Spec2Isabelle
  imports Main
begin

section \<open>Strings\<close>

text \<open>
  A Python \<open>str\<close> is a sequence of Unicode code points; it is modelled as a list of
  natural numbers, one per code point. \<open>lit\<close> turns an ASCII literal into such a list.
\<close>

type_synonym ustr = "nat list"

definition lit :: "string \<Rightarrow> ustr" where
  "lit s = map of_char s"

text \<open>\<open>s.startswith(p)\<close> and \<open>p in s\<close> on strings.\<close>

primrec starts_with :: "ustr \<Rightarrow> ustr \<Rightarrow> bool" where
  "starts_with [] s = True"
| "starts_with (c # p) s = (case s of [] \<Rightarrow> False | d # t \<Rightarrow> c = d \<and> starts_with p t)"

primrec contains :: "ustr \<Rightarrow> ustr \<Rightarrow> bool" where
  "contains p [] = (p = [])"
| "contains p (d # t) = (starts_with p (d # t) \<or> contains p t)"

text \<open>
  \<open>str.isspace\<close> for one code point: the white space characters of the Unicode
  character database, as \<open>str.strip()\<close> uses them.
\<close>

definition py_isspace :: "nat \<Rightarrow> bool" where
  "py_isspace c =
     ((9 \<le> c \<and> c \<le> 13) \<or> (28 \<le> c \<and> c \<le> 32) \<or> c = 133 \<or> c = 160 \<or> c = 5760
      \<or> (8192 \<le> c \<and> c \<le> 8202) \<or> c = 8232 \<or> c = 8233 \<or> c = 8239 \<or> c = 8287
      \<or> c = 12288)"

definition strip :: "ustr \<Rightarrow> ustr" where
  "strip s = rev (dropWhile py_isspace (rev (dropWhile py_isspace s)))"

section \<open>Sanitizer\<close>

text \<open>
  \<^verbatim>\<open>re.sub(r'[\\/*?:"<>|]', '_', name).strip()\<close>: the character class holds the nine
  characters backslash (92), slash (47), asterisk (42), question mark (63), colon (58),
  double quote (34), less-than (60), greater-than (62) and bar (124); 95 is the
  underscore.
\<close>

definition reserved :: "nat set" where
  "reserved = {92, 47, 42, 63, 58, 34, 60, 62, 124}"

definition re_sub_reserved :: "ustr \<Rightarrow> ustr" where
  "re_sub_reserved name = map (\<lambda>c. if c \<in> reserved then 95 else c) name"

definition sanitize_filename :: "ustr \<Rightarrow> ustr" where
  "sanitize_filename name = strip (re_sub_reserved name)"

section \<open>Python primitives\<close>

datatype exn = ValueError | OSError

text \<open>
  \<open>int(s)\<close> on a string: white space around the number is dropped, one sign is
  allowed, then decimal digits, with single underscores allowed between digits.
  Anything else raises \<open>ValueError\<close> (here \<open>None\<close>). Header values are Latin-1
  text, where the ASCII digits 48..57 are the only decimal digits.
\<close>

definition is_digit :: "nat \<Rightarrow> bool" where
  "is_digit c = (48 \<le> c \<and> c \<le> 57)"

fun digits_val :: "ustr \<Rightarrow> bool \<Rightarrow> int \<Rightarrow> int option" where
  "digits_val [] after_digit acc = (if after_digit then Some acc else None)"
| "digits_val (c # s) after_digit acc =
     (if is_digit c then digits_val s True (10 * acc + int (c - 48))
      else if c = 95 \<and> after_digit \<and> (case s of [] \<Rightarrow> False | d # _ \<Rightarrow> is_digit d)
        then digits_val s False acc
      else None)"

definition py_int :: "ustr \<Rightarrow> int option" where
  "py_int s =
     (case strip s of
        [] \<Rightarrow> None
      | c # r \<Rightarrow>
          if c = 45 then map_option uminus (digits_val r False 0)
          else if c = 43 then digits_val r False 0
          else digits_val (c # r) False 0)"

text \<open>\<open>int(response.headers.get('Retry-After', 10))\<close>\<close>

definition retry_after_seconds :: "ustr option \<Rightarrow> exn + int" where
  "retry_after_seconds h =
     (case h of
        None \<Rightarrow> Inr 10
      | Some s \<Rightarrow> (case py_int s of None \<Rightarrow> Inl ValueError | Some n \<Rightarrow> Inr n))"

text \<open>\<open>str(n)\<close> for a non-negative integer.\<close>

fun py_str_nat :: "nat \<Rightarrow> ustr" where
  "py_str_nat n = (if n < 10 then [48 + n] else py_str_nat (n div 10) @ [48 + n mod 10])"

declare py_str_nat.simps [simp del]

section \<open>The world: clock, log and file system\<close>

text \<open>
  A path is the list of its components below the working directory. A directory entry is
  a directory or a file; a file is represented by what a UTF-8 text read of it returns:
  \<open>Some t\<close> for the text \<open>t\<close>, \<open>None\<close> when the bytes do not decode (the read raises).
  The newline translation of text mode is not modelled. Permission and space failures
  are not modelled.

  The log records every request, every sleep, every directory creation and every file
  opened for writing, in order. The clock counts the requests made so far.
\<close>

type_synonym path = "ustr list"

type_synonym fdata = "ustr option"

datatype entry = Dir | File fdata

datatype kind = Listing | Content | Media

datatype event = Get kind ustr | Sleep int | Mkdirs path | Wrote path

record world =
  clock :: nat
  log :: "event list"
  fs :: "path \<Rightarrow> entry option"

text \<open>
  \<open>os.path.join(p, n)\<close> for a name \<open>n\<close> without separators: the empty name and
  \<open>.\<close> leave the directory, \<open>..\<close> goes one up (not above the working directory).
\<close>

definition join :: "path \<Rightarrow> ustr \<Rightarrow> path" where
  "join p n =
     (if n = [] \<or> n = lit ''.'' then p
      else if n = lit ''..'' then butlast p
      else p @ [n])"

definition exists :: "world \<Rightarrow> path \<Rightarrow> bool" where
  "exists w p = (p = [] \<or> fs w p \<noteq> None)"

text \<open>
  \<open>os.makedirs(p)\<close>: creates every missing directory on the way to \<open>p\<close>; raises when
  \<open>p\<close> exists or when a component on the way is a file. Directories made before the
  failing component stay.
\<close>

fun mk_prefixes :: "(path \<Rightarrow> entry option) \<Rightarrow> path \<Rightarrow> path \<Rightarrow> exn option \<times> (path \<Rightarrow> entry option)" where
  "mk_prefixes f pre [] = (None, f)"
| "mk_prefixes f pre (c # cs) =
     (case f (pre @ [c]) of
        None \<Rightarrow> mk_prefixes (f(pre @ [c] \<mapsto> Dir)) (pre @ [c]) cs
      | Some Dir \<Rightarrow> mk_prefixes f (pre @ [c]) cs
      | Some (File _) \<Rightarrow> (Some OSError, f))"

definition makedirs :: "path \<Rightarrow> world \<Rightarrow> exn option \<times> world" where
  "makedirs p w =
     (if exists w p then (Some OSError, w)
      else (case mk_prefixes (fs w) [] p of
              (e, f) \<Rightarrow> (e, w\<lparr>log := log w @ [Mkdirs p], fs := f\<rparr>)))"

text \<open>\<^verbatim>\<open>if not os.path.exists(p): os.makedirs(p)\<close>\<close>

definition ensure_dir :: "path \<Rightarrow> world \<Rightarrow> exn option \<times> world" where
  "ensure_dir p w = (if exists w p then (None, w) else makedirs p w)"

text \<open>
  \<open>open(p, 'w')\<close> and \<open>open(p, 'wb')\<close>: the parent must be a directory and \<open>p\<close> must
  not be one; the file is created or truncated.
\<close>

definition open_write :: "path \<Rightarrow> world \<Rightarrow> exn + world" where
  "open_write p w =
     (if p \<noteq> [] \<and> exists w (butlast p)
         \<and> (butlast p = [] \<or> fs w (butlast p) = Some Dir) \<and> fs w p \<noteq> Some Dir
      then Inr (w\<lparr>log := log w @ [Wrote p], fs := (fs w)(p \<mapsto> File (Some []))\<rparr>)
      else Inl OSError)"

definition put_data :: "path \<Rightarrow> fdata \<Rightarrow> world \<Rightarrow> world" where
  "put_data p d w = w\<lparr>fs := (fs w)(p \<mapsto> File d)\<rparr>"

text \<open>
  \<open>f.write(text)\<close> on a file opened with \<open>encoding='utf-8'\<close>: a lone surrogate cannot
  be encoded and raises (\<open>UnicodeEncodeError\<close>, a \<open>ValueError\<close>).
\<close>

definition encodable :: "ustr \<Rightarrow> bool" where
  "encodable s = list_all (\<lambda>c. c < 55296 \<or> 57343 < c) s"

definition write_text :: "path \<Rightarrow> ustr \<Rightarrow> world \<Rightarrow> exn option \<times> world" where
  "write_text p s w =
     (case open_write p w of
        Inl e \<Rightarrow> (Some e, w)
      | Inr w1 \<Rightarrow> if encodable s then (None, put_data p (Some s) w1) else (Some ValueError, w1))"

text \<open>\<^verbatim>\<open>with open(p, 'r', encoding='utf-8') as f: content = f.read()\<close>\<close>

definition read_text :: "world \<Rightarrow> path \<Rightarrow> exn + ustr" where
  "read_text w p =
     (case fs w p of
        Some (File (Some t)) \<Rightarrow> Inr t
      | Some (File None) \<Rightarrow> Inl ValueError
      | _ \<Rightarrow> Inl OSError)"

text \<open>\<open>time.sleep(n)\<close> raises \<open>ValueError\<close> on a negative duration.\<close>

definition py_sleep :: "int \<Rightarrow> world \<Rightarrow> exn + world" where
  "py_sleep n w = (if n < 0 then Inl ValueError else Inr (w\<lparr>log := log w @ [Sleep n]\<rparr>))"

text \<open>\<open>time.sleep(2 ** i)\<close>: the duration is positive, so the call cannot raise.\<close>

definition backoff :: "nat \<Rightarrow> world \<Rightarrow> world" where
  "backoff i w = w\<lparr>log := log w @ [Sleep (2 ^ i)]\<rparr>"

section \<open>The remote service\<close>

text \<open>
  A request either raises a \<open>requests\<close> exception (connection error, timeout) or returns
  a status code, the \<open>Retry-After\<close> header if the response has one, and a body. The
  service is a function of the time (the number of requests made before) and the URL.
  The bearer token is sent with every request and does not influence the model.
\<close>

datatype 'b response = ConnError | Http int "ustr option" 'b

type_synonym 'b net = "nat \<Rightarrow> ustr \<Rightarrow> 'b response"

definition http_get :: "'b net \<Rightarrow> kind \<Rightarrow> ustr \<Rightarrow> world \<Rightarrow> 'b response \<times> world" where
  "http_get net k url w = (net (clock w) url, w\<lparr>clock := Suc (clock w), log := log w @ [Get k url]\<rparr>)"

text \<open>
  The body of a 200 response to a listing request is a JSON object; the model keeps what
  the fetcher looks at: the array under \<open>value\<close> if the key is there, the string under
  \<open>@odata.nextLink\<close> if the key is there, and whether the object has any other key.
\<close>

datatype 'a payload = Payload (p_value: "'a list option") (p_next: "ustr option") (p_other: bool)

text \<open>\<open>not data\<close> for a dictionary: it is empty.\<close>

definition payload_falsy :: "'a payload \<Rightarrow> bool" where
  "payload_falsy d = (p_value d = None \<and> p_next d = None \<and> \<not> p_other d)"

text \<open>
  What the fetcher returns: \<open>None\<close>, \<^verbatim>\<open>{'value': all_items}\<close>, or the payload itself.
\<close>

datatype 'a fetched = Failure | Items "'a list" | Verbatim "'a payload"

text \<open>
  How a \<open>for i in range(retries)\<close> loop ends: with \<open>data\<close> (\<open>None\<close> when the loop ran
  out), with the \<open>return None\<close> inside the loop, or with an exception that leaves the
  function.
\<close>

datatype 'd tried = Data "'d option" | Abort | Raise exn

section \<open>Paginated fetcher\<close>

fun fetch_attempts :: "'a payload net \<Rightarrow> ustr \<Rightarrow> nat list \<Rightarrow> world \<Rightarrow> 'a payload tried \<times> world" where
  "fetch_attempts net url [] w = (Data None, w)"
| "fetch_attempts net url (i # rest) w =
     (case http_get net Listing url w of
        (ConnError, w1) \<Rightarrow> fetch_attempts net url rest (backoff i w1)
      | (Http status ra body, w1) \<Rightarrow>
          if status = 200 then (Data (Some body), w1)
          else if status = 429 then
            (case retry_after_seconds ra of
               Inl e \<Rightarrow> (Raise e, w1)
             | Inr wait_time \<Rightarrow>
                 (case py_sleep wait_time w1 of
                    Inl e \<Rightarrow> (Raise e, w1)
                  | Inr w2 \<Rightarrow> fetch_attempts net url rest w2))
          else if status \<ge> 500 then fetch_attempts net url rest (backoff i w1)
          else (Abort, w1))"

text \<open>\<^verbatim>\<open>return None if not all_items else {'value': all_items}\<close>\<close>

definition give_up :: "'a list \<Rightarrow> 'a fetched" where
  "give_up all_items = (if all_items = [] then Failure else Items all_items)"

text \<open>
  The \<open>while current_url\<close> loop. It runs for as long as the service keeps sending
  continuation links, so it is a partial function: \<open>None\<close> is a loop that never ends.
\<close>

partial_function (option) fetch_loop ::
  "'a payload net \<Rightarrow> nat list \<Rightarrow> ustr option \<Rightarrow> 'a list \<Rightarrow> world \<Rightarrow> ((exn + 'a fetched) \<times> world) option" where
  "fetch_loop net rng current_url all_items w =
     (case current_url of
        None \<Rightarrow> Some (Inr (Items all_items), w)
      | Some url \<Rightarrow>
          if url = [] then Some (Inr (Items all_items), w)
          else
            (case fetch_attempts net url rng w of
               (Raise e, w1) \<Rightarrow> Some (Inl e, w1)
             | (Abort, w1) \<Rightarrow> Some (Inr Failure, w1)
             | (Data None, w1) \<Rightarrow> Some (Inr (give_up all_items), w1)
             | (Data (Some d), w1) \<Rightarrow>
                 if payload_falsy d then Some (Inr (give_up all_items), w1)
                 else
                   (case p_value d of
                      None \<Rightarrow> Some (Inr (Verbatim d), w1)
                    | Some v \<Rightarrow> fetch_loop net rng (p_next d) (all_items @ v) w1)))"

declare fetch_loop.simps [code]

definition paged_url :: "ustr \<Rightarrow> bool \<Rightarrow> ustr" where
  "paged_url url use_pagination =
     (if use_pagination \<and> \<not> contains (lit ''$top'') url
      then url @ (if contains (lit ''?'') url then lit ''&'' else lit ''?'') @ lit ''$top=20''
      else url)"

definition fetch_json ::
  "'a payload net \<Rightarrow> ustr \<Rightarrow> int \<Rightarrow> bool \<Rightarrow> world \<Rightarrow> ((exn + 'a fetched) \<times> world) option" where
  "fetch_json net url retries use_pagination w =
     fetch_loop net [0..<nat retries] (Some (paged_url url use_pagination)) [] w"

section \<open>Media downloader\<close>

text \<open>
  The body of a media response is streamed: it arrives whole, or the stream breaks after
  a part of it (\<open>iter_content\<close> raises).
\<close>

datatype stream = Whole fdata | Cut fdata

fun download_attempts :: "stream net \<Rightarrow> ustr \<Rightarrow> path \<Rightarrow> nat list \<Rightarrow> world \<Rightarrow> bool \<times> world" where
  "download_attempts net url save_path [] w = (False, w)"
| "download_attempts net url save_path (i # rest) w =
     (case http_get net Media url w of
        (ConnError, w1) \<Rightarrow> download_attempts net url save_path rest (backoff i w1)
      | (Http status ra body, w1) \<Rightarrow>
          if status = 200 then
            (case open_write save_path w1 of
               Inl e \<Rightarrow> download_attempts net url save_path rest (backoff i w1)
             | Inr w2 \<Rightarrow>
                 (case body of
                    Whole d \<Rightarrow> (True, put_data save_path d w2)
                  | Cut d \<Rightarrow>
                      download_attempts net url save_path rest (backoff i (put_data save_path d w2))))
          else if status = 429 then
            (case retry_after_seconds ra of
               Inl e \<Rightarrow> download_attempts net url save_path rest (backoff i w1)
             | Inr wait_time \<Rightarrow>
                 (case py_sleep wait_time w1 of
                    Inl e \<Rightarrow> download_attempts net url save_path rest (backoff i w1)
                  | Inr w2 \<Rightarrow> download_attempts net url save_path rest w2))
          else if status \<ge> 500 then download_attempts net url save_path rest (backoff i w1)
          else download_attempts net url save_path rest w1)"

definition download_file :: "stream net \<Rightarrow> ustr \<Rightarrow> path \<Rightarrow> int \<Rightarrow> world \<Rightarrow> bool \<times> world" where
  "download_file net url save_path retries w =
     download_attempts net url save_path [0..<nat retries] w"

section \<open>Page content processor\<close>

text \<open>
  The retrieval loop of \<open>process_page_content\<close>. Unlike the fetcher it has no \<open>else\<close>
  branch: another status goes to the next attempt without a sleep.
\<close>

fun content_attempts :: "ustr net \<Rightarrow> ustr \<Rightarrow> nat list \<Rightarrow> world \<Rightarrow> ustr tried \<times> world" where
  "content_attempts net url [] w = (Data None, w)"
| "content_attempts net url (i # rest) w =
     (case http_get net Content url w of
        (ConnError, w1) \<Rightarrow> content_attempts net url rest (backoff i w1)
      | (Http status ra body, w1) \<Rightarrow>
          if status = 200 then (Data (Some body), w1)
          else if status = 429 then
            (case retry_after_seconds ra of
               Inl e \<Rightarrow> (Raise e, w1)
             | Inr wait_time \<Rightarrow>
                 (case py_sleep wait_time w1 of
                    Inl e \<Rightarrow> (Raise e, w1)
                  | Inr w2 \<Rightarrow> content_attempts net url rest w2))
          else if status \<ge> 500 then content_attempts net url rest (backoff i w1)
          else content_attempts net url rest w1)"

text \<open>
  The parsed document is the sequence of its text runs and elements in document order;
  an element has a name, its attributes (keys distinct) and the text inside it. Media
  elements are leaves, as in the markup the service sends. Parsing, serialising and the
  conversion to Markdown belong to external libraries and are parameters of the model.
\<close>

datatype tag = Tag (tname: ustr) (attrs: "(ustr \<times> ustr) list") (inner: ustr)

datatype node = TextNode ustr | Elem tag

type_synonym dom = "node list"

record html_lib =
  parse :: "ustr \<Rightarrow> dom"
  tag_str :: "tag \<Rightarrow> ustr"
  doc_str :: "dom \<Rightarrow> ustr"
  md :: "ustr \<Rightarrow> ustr"

definition tag_get :: "tag \<Rightarrow> ustr \<Rightarrow> ustr option" where
  "tag_get t k = map_of (attrs t) k"

text \<open>\<open>a or b\<close> on values that are \<open>None\<close> or a string: \<open>None\<close> and \<open>''\<close> are false.\<close>

definition truthy :: "ustr option \<Rightarrow> bool" where
  "truthy a = (case a of None \<Rightarrow> False | Some s \<Rightarrow> s \<noteq> [])"

definition py_or :: "ustr option \<Rightarrow> ustr option \<Rightarrow> ustr option" where
  "py_or a b = (if truthy a then a else b)"

definition media_src :: "tag \<Rightarrow> ustr option" where
  "media_src t =
     py_or (py_or (tag_get t (lit ''data-fullres-src'')) (tag_get t (lit ''src'')))
       (tag_get t (lit ''data''))"

text \<open>\<^verbatim>\<open>if not src or not src.startswith('http'): continue\<close>\<close>

definition resolvable :: "tag \<Rightarrow> bool" where
  "resolvable t =
     (case media_src t of None \<Rightarrow> False | Some src \<Rightarrow> src \<noteq> [] \<and> starts_with (lit ''http'') src)"

definition is_media :: "tag \<Rightarrow> bool" where
  "is_media t = (tname t = lit ''img'' \<or> tname t = lit ''object'')"

definition set_attr :: "ustr \<Rightarrow> ustr \<Rightarrow> (ustr \<times> ustr) list \<Rightarrow> (ustr \<times> ustr) list" where
  "set_attr k v kvs =
     (if map_of kvs k = None then kvs @ [(k, v)]
      else map (\<lambda>(a, b). if a = k then (a, v) else (a, b)) kvs)"

definition del_attr :: "ustr \<Rightarrow> (ustr \<times> ustr) list \<Rightarrow> (ustr \<times> ustr) list" where
  "del_attr k kvs = filter (\<lambda>(a, b). a \<noteq> k) kvs"

definition asset_filename :: "html_lib \<Rightarrow> ustr \<Rightarrow> nat \<Rightarrow> tag \<Rightarrow> ustr" where
  "asset_filename lib page_id idx t =
     (if truthy (tag_get t (lit ''data-attachment''))
      then page_id @ lit ''_'' @ sanitize_filename (the (tag_get t (lit ''data-attachment'')))
      else page_id @ lit ''_asset_'' @ py_str_nat idx
           @ (if contains (lit ''image/jpeg'') (tag_str lib t) then lit ''.jpg''
              else if contains (lit ''application/pdf'') (tag_str lib t) then lit ''.pdf''
              else lit ''.png''))"

text \<open>
  The label of an attachment link: U+1F4CE, a space, U+9644, U+4EF6, a colon and a space,
  then the attachment name.
\<close>

definition attachment_label :: "ustr \<Rightarrow> ustr" where
  "attachment_label attachment_name = [128206, 32, 38468, 20214, 58, 32] @ attachment_name"

definition localized :: "tag \<Rightarrow> ustr \<Rightarrow> tag" where
  "localized t local_rel_path =
     (if truthy (tag_get t (lit ''data-attachment''))
      then Tag (lit ''a'') [(lit ''href'', local_rel_path)]
             (attachment_label (the (tag_get t (lit ''data-attachment''))))
      else if tname t = lit ''img''
      then Tag (tname t) (del_attr (lit ''data-fullres-src'') (set_attr (lit ''src'') local_rel_path (attrs t)))
             (inner t)
      else Tag (lit ''img'') [(lit ''src'', local_rel_path)] [])"

text \<open>
  The loop over \<open>enumerate(media_tags)\<close>: \<open>idx\<close> counts the media elements met so far,
  the world is threaded through the downloads in document order.
\<close>

fun rewrite_media ::
  "html_lib \<Rightarrow> stream net \<Rightarrow> ustr \<Rightarrow> path \<Rightarrow> nat \<Rightarrow> dom \<Rightarrow> world \<Rightarrow> dom \<times> world" where
  "rewrite_media lib mnet page_id assets_dir idx [] w = ([], w)"
| "rewrite_media lib mnet page_id assets_dir idx (TextNode s # ns) w =
     (case rewrite_media lib mnet page_id assets_dir idx ns w of
        (ns', w') \<Rightarrow> (TextNode s # ns', w'))"
| "rewrite_media lib mnet page_id assets_dir idx (Elem t # ns) w =
     (if \<not> is_media t then
        (case rewrite_media lib mnet page_id assets_dir idx ns w of
           (ns', w') \<Rightarrow> (Elem t # ns', w'))
      else if \<not> resolvable t then
        (case rewrite_media lib mnet page_id assets_dir (Suc idx) ns w of
           (ns', w') \<Rightarrow> (Elem t # ns', w'))
      else
        (case download_file mnet (the (media_src t))
                (join assets_dir (asset_filename lib page_id idx t)) 3 w of
           (ok, w1) \<Rightarrow>
             (case rewrite_media lib mnet page_id assets_dir (Suc idx) ns w1 of
                (ns', w') \<Rightarrow>
                  ((if ok then Elem (localized t (lit ''assets/'' @ asset_filename lib page_id idx t))
                    else Elem t) # ns', w'))))"

definition page_url :: "ustr \<Rightarrow> ustr" where
  "page_url page_id =
     lit ''https://graph.microsoft.com/v1.0/me/onenote/pages/'' @ page_id
       @ lit ''/content?includeIDs=true&includeInkML=true''"

definition process_page_content ::
  "html_lib \<Rightarrow> ustr net \<Rightarrow> stream net \<Rightarrow> ustr \<Rightarrow> path \<Rightarrow> int \<Rightarrow> world \<Rightarrow> (exn + ustr option) \<times> world" where
  "process_page_content lib cnet mnet page_id assets_dir retries w =
     (case content_attempts cnet (page_url page_id) [0..<nat retries] w of
        (Raise e, w1) \<Rightarrow> (Inl e, w1)
      | (Abort, w1) \<Rightarrow> (Inr None, w1)
      | (Data None, w1) \<Rightarrow> (Inr None, w1)
      | (Data (Some html_content), w1) \<Rightarrow>
          if html_content = [] then (Inr None, w1)
          else
            (case ensure_dir assets_dir w1 of
               (Some e, w2) \<Rightarrow> (Inl e, w2)
             | (None, w2) \<Rightarrow>
                 (case rewrite_media lib mnet page_id assets_dir 0 (parse lib html_content) w2 of
                    (soup, w3) \<Rightarrow> (Inr (Some (doc_str lib soup)), w3))))"

section \<open>Resume decision and hierarchy walker\<close>

record item =
  item_id :: ustr
  item_name :: ustr

record remote =
  listing_net :: "item payload net"
  content_net :: "ustr net"
  media_net :: "stream net"

definition remote_host :: ustr where
  "remote_host = lit ''graph.microsoft.com''"

text \<open>
  Lines 317 to 331 of \<open>main\<close>: \<open>should_download\<close> starts \<open>True\<close> and becomes \<open>False\<close> only
  when the file exists, the read succeeds, the host name is not in the content and the
  assets directory exists. A failed read is caught and leaves it \<open>True\<close>.
\<close>

definition should_download :: "world \<Rightarrow> path \<Rightarrow> path \<Rightarrow> bool" where
  "should_download w md_file_path assets_dir =
     (if exists w md_file_path then
        (case read_text w md_file_path of
           Inl e \<Rightarrow> True
         | Inr content \<Rightarrow>
             if \<not> contains remote_host content \<and> exists w assets_dir then False else True)
      else True)"

definition page_title :: "item \<Rightarrow> ustr" where
  "page_title page =
     (if sanitize_filename (item_name page) = [] then lit ''Untitled_'' @ item_id page
      else sanitize_filename (item_name page))"

definition md_file_path :: "path \<Rightarrow> item \<Rightarrow> path" where
  "md_file_path sec_path page = join sec_path (page_title page @ lit ''.md'')"

text \<open>
  The loop over the pages of a section. An exception of \<open>process_page_content\<close> is
  caught and the loop goes on; an exception of the final write is not caught and ends
  the run.
\<close>

fun sync_pages :: "html_lib \<Rightarrow> remote \<Rightarrow> path \<Rightarrow> item list \<Rightarrow> world \<Rightarrow> exn option \<times> world" where
  "sync_pages lib r sec_path [] w = (None, w)"
| "sync_pages lib r sec_path (page # rest) w =
     (if \<not> should_download w (md_file_path sec_path page) (join sec_path (lit ''assets''))
      then sync_pages lib r sec_path rest w
      else
        (case process_page_content lib (content_net r) (media_net r) (item_id page)
                (join sec_path (lit ''assets'')) 3 w of
           (Inl e, w1) \<Rightarrow> sync_pages lib r sec_path rest w1
         | (Inr None, w1) \<Rightarrow> sync_pages lib r sec_path rest w1
         | (Inr (Some processed_html), w1) \<Rightarrow>
             if processed_html = [] then sync_pages lib r sec_path rest w1
             else
               (case write_text (md_file_path sec_path page) (md lib processed_html) w1 of
                  (Some e, w2) \<Rightarrow> (Some e, w2)
                | (None, w2) \<Rightarrow> sync_pages lib r sec_path rest w2)))"

definition pages_url :: "ustr \<Rightarrow> ustr" where
  "pages_url sec_id =
     lit ''https://graph.microsoft.com/v1.0/me/onenote/sections/'' @ sec_id
       @ lit ''/pages?$top=20&$select=id,title''"

definition sections_url :: "ustr \<Rightarrow> ustr" where
  "sections_url nb_id =
     lit ''https://graph.microsoft.com/v1.0/me/onenote/notebooks/'' @ nb_id @ lit ''/sections''"

definition notebooks_url :: ustr where
  "notebooks_url = lit ''https://graph.microsoft.com/v1.0/me/onenote/notebooks''"

fun sync_sections ::
  "html_lib \<Rightarrow> remote \<Rightarrow> path \<Rightarrow> item list \<Rightarrow> world \<Rightarrow> (exn option \<times> world) option" where
  "sync_sections lib r nb_path [] w = Some (None, w)"
| "sync_sections lib r nb_path (sec # rest) w =
     (case ensure_dir (join nb_path (sanitize_filename (item_name sec))) w of
        (Some e, w1) \<Rightarrow> Some (Some e, w1)
      | (None, w1) \<Rightarrow>
          (case fetch_json (listing_net r) (pages_url (item_id sec)) 5 True w1 of
             None \<Rightarrow> None
           | Some (Inl e, w2) \<Rightarrow> Some (Some e, w2)
           | Some (Inr (Items all_pages), w2) \<Rightarrow>
               (case sync_pages lib r (join nb_path (sanitize_filename (item_name sec))) all_pages w2 of
                  (Some e, w3) \<Rightarrow> Some (Some e, w3)
                | (None, w3) \<Rightarrow> sync_sections lib r nb_path rest w3)
           | Some (Inr _, w2) \<Rightarrow> sync_sections lib r nb_path rest w2))"

definition export_dir :: path where
  "export_dir = [lit ''OneNote_Export'']"

fun sync_notebooks ::
  "html_lib \<Rightarrow> remote \<Rightarrow> item list \<Rightarrow> world \<Rightarrow> (exn option \<times> world) option" where
  "sync_notebooks lib r [] w = Some (None, w)"
| "sync_notebooks lib r (nb # rest) w =
     (case ensure_dir (join export_dir (sanitize_filename (item_name nb))) w of
        (Some e, w1) \<Rightarrow> Some (Some e, w1)
      | (None, w1) \<Rightarrow>
          (case fetch_json (listing_net r) (sections_url (item_id nb)) 5 False w1 of
             None \<Rightarrow> None
           | Some (Inl e, w2) \<Rightarrow> Some (Some e, w2)
           | Some (Inr (Items all_sections), w2) \<Rightarrow>
               (case sync_sections lib r (join export_dir (sanitize_filename (item_name nb))) all_sections w2 of
                  None \<Rightarrow> None
                | Some (Some e, w3) \<Rightarrow> Some (Some e, w3)
                | Some (None, w3) \<Rightarrow> sync_notebooks lib r rest w3)
           | Some (Inr _, w2) \<Rightarrow> sync_notebooks lib r rest w2))"

text \<open>
  \<open>main\<close> once the token is there (the export directory is made before). The result is
  the exception that ended the run, if one did, and the world the run leaves.
\<close>

definition main :: "html_lib \<Rightarrow> remote \<Rightarrow> world \<Rightarrow> (exn option \<times> world) option" where
  "main lib r w =
     (case ensure_dir export_dir w of
        (Some e, w1) \<Rightarrow> Some (Some e, w1)
      | (None, w1) \<Rightarrow>
          (case fetch_json (listing_net r) notebooks_url 5 False w1 of
             None \<Rightarrow> None
           | Some (Inl e, w2) \<Rightarrow> Some (Some e, w2)
           | Some (Inr (Items notebooks), w2) \<Rightarrow> sync_notebooks lib r notebooks w2
           | Some (Inr _, w2) \<Rightarrow> Some (None, w2)))"

section \<open>Classes of responses\<close>

text \<open>
  The sleep that the fetcher's loop takes after a response at attempt \<open>i\<close> before it goes
  to the next attempt; \<open>None\<close> when the response ends the loop (a 200, another status
  below 500, or a 429 whose \<open>Retry-After\<close> makes \<open>int\<close> or \<open>time.sleep\<close> raise).
\<close>

definition retried :: "'b response \<Rightarrow> nat \<Rightarrow> int option" where
  "retried r i =
     (case r of
        ConnError \<Rightarrow> Some (2 ^ i)
      | Http status ra body \<Rightarrow>
          if status = 200 then None
          else if status = 429 then
            (case retry_after_seconds ra of
               Inl e \<Rightarrow> None
             | Inr n \<Rightarrow> if n < 0 then None else Some n)
          else if status \<ge> 500 then Some (2 ^ i)
          else None)"

text \<open>A status that is neither 200, nor 429, nor a server error.\<close>

definition rejected :: "'b response \<Rightarrow> bool" where
  "rejected r = (case r of ConnError \<Rightarrow> False | Http status ra body \<Rightarrow> status \<noteq> 200 \<and> status \<noteq> 429 \<and> status < 500)"




definition no_media :: "dom \<Rightarrow> bool" where
  "no_media d = list_all (\<lambda>n. case n of TextNode s \<Rightarrow> True | Elem t \<Rightarrow> \<not> (is_media t \<and> resolvable t)) d"

section \<open>Observations and scenarios\<close>

text \<open>The sleeps in a log, in order.\<close>

definition sleeps :: "event list \<Rightarrow> int list" where
  "sleeps evs = concat (map (\<lambda>e. case e of Sleep n \<Rightarrow> [n] | _ \<Rightarrow> []) evs)"



text \<open>What a run returned, how many requests had been made and what it logged.\<close>

definition outcome :: "('r \<times> world) option \<Rightarrow> ('r \<times> nat \<times> event list) option" where
  "outcome x = map_option (\<lambda>(r, w). (r, clock w, log w)) x"


text \<open>The empty world: no request made, nothing logged, no file.\<close>

definition w0 :: world where
  "w0 = \<lparr>clock = 0, log = [], fs = (\<lambda>p. None)\<rparr>"

text \<open>
  The libraries on text without markup: the parser returns one text node, serialising
  returns the text, and the conversion to Markdown leaves a text without markup and
  without Markdown metacharacters as it is.
\<close>

definition plain_lib :: html_lib where
  "plain_lib =
     \<lparr>parse = (\<lambda>s. [TextNode s]),
      tag_str = (\<lambda>t. []),
      doc_str = (\<lambda>d. concat (map (\<lambda>n. case n of TextNode s \<Rightarrow> s | Elem t \<Rightarrow> []) d)),
      md = (\<lambda>s. s)\<rparr>"

text \<open>A service that answers every listing request with a server error.\<close>

definition down_net :: "nat payload net" where
  "down_net t url = Http 503 None (Payload None None False)"

text \<open>A first page of two items with a continuation link, then 404 on the next page.\<close>

definition gone_net :: "nat payload net" where
  "gone_net t url =
     (if t = 0 then Http 200 None (Payload (Some [1, 2]) (Some (lit ''https://next'')) False)
      else Http 404 None (Payload None None False))"



text \<open>A 429 whose \<open>Retry-After\<close> header is an HTTP date, then the listing.\<close>

definition dated_net :: "nat payload net" where
  "dated_net t url =
     (if t = 0 then Http 429 (Some (lit ''Wed, 21 Oct 2015 07:28:00 GMT'')) (Payload None None False)
      else Http 200 None (Payload (Some [7]) None False))"

text \<open>A media service that answers 404 to everything.\<close>

definition missing_net :: "stream net" where
  "missing_net t url = Http 404 None (Whole None)"

text \<open>A content service that returns the same text for every page.\<close>

definition text_net :: "ustr \<Rightarrow> ustr net" where
  "text_net s t url = Http 200 None s"



definition ideas_path :: path where
  "ideas_path = [lit ''OneNote_Export'', lit ''Work'', lit ''Ideas'']"

text \<open>
  The directories down to the section are there; the page's markdown file is the given
  entry (or missing), and the assets directory is there or not.
\<close>

definition page_world :: "entry option \<Rightarrow> bool \<Rightarrow> world" where
  "page_world e assets =
     \<lparr>clock = 0, log = [],
      fs = (\<lambda>p. if p = ideas_path @ [lit ''Plan_1_.md''] then e
                else if p = ideas_path @ [lit ''assets''] then (if assets then Some Dir else None)
                else if p = [lit ''OneNote_Export''] \<or> p = [lit ''OneNote_Export'', lit ''Work'']
                    \<or> p = ideas_path then Some Dir
                else None)\<rparr>"

text \<open>The section directory is there and nothing else.\<close>

definition fresh_world :: world where
  "fresh_world = page_world None False"




text \<open>
  A media service whose first answer is a 429 with an HTTP date in \<open>Retry-After\<close> and
  whose second answer is the file.
\<close>

definition dated_media_net :: "stream net" where
  "dated_media_net t url =
     (if t = 0 then Http 429 (Some (lit ''Wed, 21 Oct 2015 07:28:00 GMT'')) (Whole None)
      else Http 200 None (Whole (Some (lit ''data''))))"

section \<open>Properties of the sanitizer\<close>

lemma set_strip: "set (strip s) \<subseteq> set s"
proof -
  have "set (strip s) = set (dropWhile py_isspace (rev (dropWhile py_isspace s)))"
    by (simp add: strip_def)
  also have "\<dots> \<subseteq> set (rev (dropWhile py_isspace s))"
    by (rule set_dropWhileD [THEN subsetI])
  also have "\<dots> \<subseteq> set s"
    using set_dropWhileD by fastforce
  finally show ?thesis .
qed

lemma re_sub_reserved_free: "set (re_sub_reserved s) \<inter> reserved = {}"
  by (auto simp: re_sub_reserved_def reserved_def)

lemma re_sub_reserved_id: "set s \<inter> reserved = {} \<Longrightarrow> re_sub_reserved s = s"
  by (induction s) (auto simp: re_sub_reserved_def)

lemma dropWhile_id: "(case s of [] \<Rightarrow> True | c # _ \<Rightarrow> \<not> P c) \<Longrightarrow> dropWhile P s = s"
  by (cases s) auto

lemma strip_strip: "strip (strip s) = strip s"
proof -
  define a where "a = dropWhile py_isspace s"
  define b where "b = dropWhile py_isspace (rev a)"
  have b_hd: "case b of [] \<Rightarrow> True | c # _ \<Rightarrow> \<not> py_isspace c"
    unfolding b_def by (metis (mono_tags, lifting) dropWhile_eq_Cons_conv list.case_eq_if
        list.collapse)
  have a_hd: "case a of [] \<Rightarrow> True | c # _ \<Rightarrow> \<not> py_isspace c"
    unfolding a_def by (metis (mono_tags, lifting) dropWhile_eq_Cons_conv list.case_eq_if
        list.collapse)
  have rb_hd: "case rev b of [] \<Rightarrow> True | c # _ \<Rightarrow> \<not> py_isspace c"
  proof (cases "rev b")
    case Nil
    then show ?thesis by simp
  next
    case (Cons c cs)
    have "\<exists>pre. rev a = pre @ b"
      unfolding b_def by (metis takeWhile_dropWhile_id)
    then obtain pre where "rev a = pre @ b" ..
    then have "a = rev b @ rev pre" by (metis rev_append rev_rev_ident)
    with Cons have "a = c # (cs @ rev pre)" by simp
    with a_hd have "\<not> py_isspace c" by simp
    with Cons show ?thesis by simp
  qed
  have "strip (rev b) = rev (dropWhile py_isspace (rev (dropWhile py_isspace (rev b))))"
    by (simp add: strip_def)
  also have "\<dots> = rev (dropWhile py_isspace (rev (rev b)))"
    using dropWhile_id [OF rb_hd] by simp
  also have "\<dots> = rev b"
    using dropWhile_id [OF b_hd] by simp
  finally show ?thesis by (simp add: strip_def a_def b_def)
qed

section \<open>Lemmas about the fetcher, the downloader and the file system\<close>

lemma py_sleep_backoff: "py_sleep (2 ^ i) w = Inr (backoff i w)"
  by (simp add: py_sleep_def backoff_def)

lemma fetch_attempts_retried:
  "retried (net (clock w) url) i = Some n \<Longrightarrow>
   fetch_attempts net url (i # rest) w =
     fetch_attempts net url rest (w\<lparr>clock := Suc (clock w), log := log w @ [Get Listing url, Sleep n]\<rparr>)"
  by (auto simp: retried_def http_get_def backoff_def py_sleep_def
      split: response.splits sum.splits if_splits)

lemma fetch_attempts_all_retried:
  "\<forall>k<length rng. retried (net (clock w + k) url) (rng ! k) \<noteq> None \<Longrightarrow>
   \<exists>w1. fetch_attempts net url rng w = (Data None, w1) \<and> clock w1 = clock w + length rng \<and> fs w1 = fs w"
proof (induction rng arbitrary: w)
  case Nil
  then show ?case by simp
next
  case (Cons i rest)
  from Cons.prems have "retried (net (clock w) url) i \<noteq> None" by fastforce
  then obtain n where n: "retried (net (clock w) url) i = Some n" by blast
  let ?w = "w\<lparr>clock := Suc (clock w), log := log w @ [Get Listing url, Sleep n]\<rparr>"
  have "\<forall>k<length rest. retried (net (clock ?w + k) url) (rest ! k) \<noteq> None"
    using Cons.prems by fastforce
  from Cons.IH [of ?w] this obtain w1 where
    "fetch_attempts net url rest ?w = (Data None, w1)" "clock w1 = clock ?w + length rest" "fs w1 = fs ?w"
    by blast
  then show ?case using fetch_attempts_retried [where net=net and w=w and url=url and i=i and n=n and rest=rest] n by simp
qed

lemma fetch_loop_exhausted:
  assumes "url \<noteq> []" and "\<forall>k<length rng. retried (net (clock w + k) url) (rng ! k) \<noteq> None"
  shows "\<exists>w1. fetch_loop net rng (Some url) all_items w
           = Some (Inr (if all_items = [] then Failure else Items all_items), w1)
         \<and> clock w1 = clock w + length rng \<and> fs w1 = fs w"
proof -
  from fetch_attempts_all_retried [where net=net and w=w and url=url and rng=rng] assms(2) obtain w1 where
    "fetch_attempts net url rng w = (Data None, w1)" "clock w1 = clock w + length rng" "fs w1 = fs w"
    by blast
  then show ?thesis using assms(1)
    by (subst fetch_loop.simps) (simp add: give_up_def)
qed




lemma sleeps_append: "sleeps (xs @ ys) = sleeps xs @ sleeps ys"
  by (simp add: sleeps_def)




lemma fetch_attempts_rejected:
  "j < length rng \<Longrightarrow>
   \<forall>k<j. retried (net (clock w + k) url) (rng ! k) \<noteq> None \<Longrightarrow>
   rejected (net (clock w + j) url) \<Longrightarrow>
   \<exists>w1. fetch_attempts net url rng w = (Abort, w1) \<and> clock w1 = clock w + Suc j \<and> fs w1 = fs w"
proof (induction rng arbitrary: w j)
  case Nil
  then show ?case by simp
next
  case (Cons i rest)
  show ?case
  proof (cases j)
    case 0
    with Cons.prems(3) show ?thesis
      by (auto simp: rejected_def http_get_def split: response.splits)
  next
    case (Suc j')
    from Cons.prems(2) Suc have "retried (net (clock w) url) i \<noteq> None" by fastforce
    then obtain n where n: "retried (net (clock w) url) i = Some n" by blast
    let ?w = "w\<lparr>clock := Suc (clock w), log := log w @ [Get Listing url, Sleep n]\<rparr>"
    have a: "j' < length rest" using Cons.prems(1) Suc by simp
    have b: "\<forall>k<j'. retried (net (clock ?w + k) url) (rest ! k) \<noteq> None"
      using Cons.prems(2) Suc by fastforce
    have c: "rejected (net (clock ?w + j') url)"
      using Cons.prems(3) Suc by simp
    from Cons.IH [of j' ?w, OF a b c] obtain w1 where
      "fetch_attempts net url rest ?w = (Abort, w1)" "clock w1 = clock ?w + Suc j'" "fs w1 = fs ?w"
      by blast
    then show ?thesis
      using fetch_attempts_retried [where net=net and w=w and url=url and i=i and n=n and rest=rest] n Suc
      by simp
  qed
qed

lemma fetch_loop_rejected:
  assumes "url \<noteq> []" and "j < length rng"
    and "\<forall>k<j. retried (net (clock w + k) url) (rng ! k) \<noteq> None"
    and "rejected (net (clock w + j) url)"
  shows "\<exists>w1. fetch_loop net rng (Some url) all_items w = Some (Inr Failure, w1)
         \<and> clock w1 = clock w + Suc j \<and> fs w1 = fs w"
proof -
  from fetch_attempts_rejected [where net=net and w=w and url=url and rng=rng and j=j] assms
  obtain w1 where
    "fetch_attempts net url rng w = (Abort, w1)" "clock w1 = clock w + Suc j" "fs w1 = fs w"
    by blast
  then show ?thesis using assms(1)
    by (subst fetch_loop.simps) simp
qed

lemma download_attempts_rejected:
  "\<forall>k<length rng. rejected (net (clock w + k) url) \<Longrightarrow>
   download_attempts net url save_path rng w =
     (False, w\<lparr>clock := clock w + length rng,
                log := log w @ replicate (length rng) (Get Media url)\<rparr>)"
proof (induction rng arbitrary: w)
  case Nil
  then show ?case by simp
next
  case (Cons i rest)
  let ?w = "w\<lparr>clock := Suc (clock w), log := log w @ [Get Media url]\<rparr>"
  from Cons.prems have r: "rejected (net (clock w) url)" by fastforce
  have step: "download_attempts net url save_path (i # rest) w
      = download_attempts net url save_path rest ?w"
    using r by (auto simp: rejected_def http_get_def split: response.splits)
  have "\<forall>k<length rest. rejected (net (clock ?w + k) url)"
    using Cons.prems by fastforce
  from Cons.IH [of ?w, OF this] step show ?case
    by (simp add: replicate_append_same)
qed

lemma rewrite_media_no_media:
  "no_media d \<Longrightarrow> rewrite_media lib mnet page_id assets_dir idx d w = (d, w)"
proof (induction d arbitrary: idx)
  case Nil
  then show ?case by simp
next
  case (Cons n ns)
  then show ?case
    by (cases n) (auto simp: no_media_def)
qed

lemma content_attempts_fs: "fs (snd (content_attempts net url rng w)) = fs w"
proof (induction rng arbitrary: w)
  case Nil
  then show ?case by simp
next
  case (Cons i rest)
  show ?case
    by (auto simp: http_get_def backoff_def py_sleep_def Cons.IH
        split: response.splits sum.splits prod.splits)
qed

lemma mk_prefixes_made:
  "mk_prefixes f pre p = (None, f') \<Longrightarrow> p \<noteq> [] \<Longrightarrow> f' (pre @ p) = Some Dir"
proof (induction p arbitrary: f pre)
  case Nil
  then show ?case by simp
next
  case (Cons c cs)
  define f1 where "f1 = (case f (pre @ [c]) of None \<Rightarrow> f(pre @ [c] \<mapsto> Dir) | Some e \<Rightarrow> f)"
  from Cons.prems(1) have notfile: "\<forall>d. f (pre @ [c]) \<noteq> Some (File d)"
    by (auto split: option.splits entry.splits)
  then have f1c: "f1 (pre @ [c]) = Some Dir"
    unfolding f1_def by (cases "f (pre @ [c])") (auto intro: entry.exhaust)
  have rec: "mk_prefixes f1 (pre @ [c]) cs = (None, f')"
    using Cons.prems(1) notfile unfolding f1_def
    by (auto split: option.splits entry.splits)
  show ?case
  proof (cases "cs = []")
    case True
    with rec f1c show ?thesis by simp
  next
    case False
    from Cons.IH [OF rec False] show ?thesis by simp
  qed
qed








lemma mk_prefixes_keeps:
  "mk_prefixes f pre p = (e, f') \<Longrightarrow> f q \<noteq> None \<Longrightarrow> f' q \<noteq> None"
proof (induction p arbitrary: f pre)
  case Nil
  then show ?case by simp
next
  case (Cons c cs)
  then show ?case
    by (auto split: option.splits entry.splits if_splits)
qed


lemma ensure_dir_keeps:
  "ensure_dir p w = (e, w') \<Longrightarrow> fs w q \<noteq> None \<Longrightarrow> fs w' q \<noteq> None"
  by (auto simp: ensure_dir_def makedirs_def split: if_splits prod.splits
      dest: mk_prefixes_keeps)

lemma exists_keeps: "(\<And>q. fs w q \<noteq> None \<Longrightarrow> fs w' q \<noteq> None) \<Longrightarrow> exists w p \<Longrightarrow> exists w' p"
  by (auto simp: exists_def)






section \<open>Evaluation of concrete runs\<close>

lemmas eval_defs = main_def fetch_json_def paged_url_def fetch_loop.simps http_get_def
  ensure_dir_def makedirs_def exists_def export_dir_def join_def lit_def notebooks_url_def
  sections_url_def pages_url_def page_url_def sanitize_filename_def re_sub_reserved_def reserved_def
  strip_def py_isspace_def payload_falsy_def give_up_def should_download_def read_text_def
  md_file_path_def page_title_def process_page_content_def write_text_def open_write_def
  put_data_def encodable_def remote_host_def upt_rec backoff_def py_sleep_def
  retry_after_seconds_def py_int_def is_digit_def download_file_def outcome_def w0_def

section \<open>C1: the resume decision\<close>



section \<open>C2: a second run\<close>




section \<open>C3: retries exhausted\<close>

text \<open>
  C3. When every attempt the loop has for the current page ends in a retry (a connection
  error, a server error, or a 429 with a usable \<open>Retry-After\<close>), so that the attempts run
  out without a 200, the fetcher returns the items accumulated from the earlier pages if
  there is at least one, and failure (\<open>None\<close>) if there is none. It has then made one
  request per attempt.
\<close>

theorem retries_exhausted:
  assumes "url \<noteq> []"
    and "\<forall>k<length rng. retried (net (clock w + k) url) (rng ! k) \<noteq> None"
  shows "map_option fst (fetch_loop net rng (Some url) all_items w)
           = Some (Inr (if all_items = [] then Failure else Items all_items))
         \<and> map_option (clock \<circ> snd) (fetch_loop net rng (Some url) all_items w)
           = Some (clock w + length rng)"
proof -
  from fetch_loop_exhausted [where net=net and w=w and url=url and rng=rng and all_items=all_items]
    assms
  obtain w1 where
    "fetch_loop net rng (Some url) all_items w
       = Some (Inr (if all_items = [] then Failure else Items all_items), w1)"
    "clock w1 = clock w + length rng"
    by blast
  then show ?thesis by simp
qed

text \<open>
  Five server errors in a row: with an item accumulated the fetcher returns it, with none
  it returns failure.
\<close>

theorem retries_exhausted_witness:
  "map_option fst (fetch_loop down_net [0..<nat 5] (Some (lit ''u'')) [7] w0) = Some (Inr (Items [7]))
   \<and> map_option fst (fetch_loop down_net [0..<nat 5] (Some (lit ''u'')) [] w0) = Some (Inr Failure)"
  using retries_exhausted [where net=down_net and rng="[0..<nat 5]" and url="lit ''u''"
      and w=w0 and all_items="[7]"]
    retries_exhausted [where net=down_net and rng="[0..<nat 5]" and url="lit ''u''"
      and w=w0 and all_items="[]"]
  by (simp add: down_net_def retried_def lit_def)

section \<open>C4: a listing that fails after its first pages\<close>

text \<open>
  C4 as stated fails: the first page brings two items and a continuation link, the next
  page answers 404, and the fetcher returns failure; the two items are lost.
\<close>

theorem partial_listing_discarded_on_404:
  "outcome (fetch_json gone_net (lit ''https://x/pages'') 5 True w0)
     = Some (Inr Failure, 2,
             [Get Listing (lit ''https://x/pages?$top=20''), Get Listing (lit ''https://next'')])"
  by (simp add: eval_defs gone_net_def)

text \<open>
  C4, amended. When a page's fetch fails because its attempts run out, the fetcher returns
  the items accumulated from the earlier pages as a success if there is at least one.
  When a page's fetch meets a status that is neither 200, nor 429, nor a server error
  (404 for one), the fetcher returns failure at once, whatever was accumulated.
\<close>

theorem partial_listing_failure:
  assumes "url \<noteq> []"
  shows "((\<forall>k<length rng. retried (net (clock w + k) url) (rng ! k) \<noteq> None) \<longrightarrow>
            map_option fst (fetch_loop net rng (Some url) all_items w)
              = Some (Inr (if all_items = [] then Failure else Items all_items)))
         \<and> (j < length rng \<and> (\<forall>k<j. retried (net (clock w + k) url) (rng ! k) \<noteq> None)
              \<and> rejected (net (clock w + j) url) \<longrightarrow>
            map_option fst (fetch_loop net rng (Some url) all_items w) = Some (Inr Failure))"
proof (intro conjI impI)
  assume "\<forall>k<length rng. retried (net (clock w + k) url) (rng ! k) \<noteq> None"
  with fetch_loop_exhausted [where net=net and w=w and url=url and rng=rng and all_items=all_items]
    assms
  obtain w1 where
    "fetch_loop net rng (Some url) all_items w
       = Some (Inr (if all_items = [] then Failure else Items all_items), w1)"
    by blast
  then show "map_option fst (fetch_loop net rng (Some url) all_items w)
              = Some (Inr (if all_items = [] then Failure else Items all_items))"
    by simp
next
  assume "j < length rng \<and> (\<forall>k<j. retried (net (clock w + k) url) (rng ! k) \<noteq> None)
              \<and> rejected (net (clock w + j) url)"
  with fetch_loop_rejected [where net=net and w=w and url=url and rng=rng and j=j
      and all_items=all_items] assms
  obtain w1 where "fetch_loop net rng (Some url) all_items w = Some (Inr Failure, w1)"
    by blast
  then show "map_option fst (fetch_loop net rng (Some url) all_items w) = Some (Inr Failure)"
    by simp
qed

text \<open>
  With the items 1 and 2 accumulated: five server errors on the next page return them, a
  404 on the next page returns failure.
\<close>

theorem partial_listing_failure_witness:
  "map_option fst (fetch_loop down_net [0..<nat 5] (Some (lit ''https://next'')) [1, 2] w0)
     = Some (Inr (Items [1, 2]))
   \<and> map_option fst (fetch_loop gone_net [0..<nat 5] (Some (lit ''https://next'')) [1, 2]
        (w0\<lparr>clock := 1\<rparr>))
     = Some (Inr Failure)"
  using partial_listing_failure [where net=down_net and rng="[0..<nat 5]"
      and url="lit ''https://next''" and w=w0 and all_items="[1, 2]" and j=0]
    partial_listing_failure [where net=gone_net and rng="[0..<nat 5]"
      and url="lit ''https://next''" and w="w0\<lparr>clock := 1\<rparr>" and all_items="[1, 2]" and j=0]
  by (simp add: down_net_def gone_net_def retried_def rejected_def lit_def w0_def)

section \<open>C5: 429 responses\<close>




section \<open>C6: the backoff sequence\<close>



section \<open>C7: the sanitizer\<close>

text \<open>
  C7. sanitizing twice is sanitizing once, and no reserved character is left in the
  result. The function is a total HOL function: it returns a name for every string.
\<close>

theorem sanitize_filename_idempotent_clean:
  "sanitize_filename (sanitize_filename x) = sanitize_filename x
   \<and> set (sanitize_filename x) \<inter> reserved = {}"
proof -
  have clean: "set (sanitize_filename x) \<inter> reserved = {}"
    using set_strip [of "re_sub_reserved x"] re_sub_reserved_free [of x]
    by (auto simp: sanitize_filename_def)
  have "sanitize_filename (sanitize_filename x) = strip (sanitize_filename x)"
    using re_sub_reserved_id [OF clean] by (simp add: sanitize_filename_def)
  also have "\<dots> = sanitize_filename x"
    by (simp add: sanitize_filename_def strip_strip)
  finally show ?thesis using clean by simp
qed

theorem sanitize_filename_witness:
  "sanitize_filename (lit '' Plan<1>: a/b '') = lit ''Plan_1__ a_b''
   \<and> sanitize_filename (sanitize_filename (lit '' Plan<1>: a/b '')) = lit ''Plan_1__ a_b''"
  using sanitize_filename_idempotent_clean [of "lit '' Plan<1>: a/b ''"]
  by (simp add: sanitize_filename_def re_sub_reserved_def strip_def lit_def reserved_def
      py_isspace_def)

section \<open>C8: the assets directory\<close>

text \<open>
  C8 as stated fails: the page below is plain text without any media element, its
  retrieval succeeds, and the call creates the assets directory.
\<close>

theorem assets_dir_created_without_media:
  "no_media (parse plain_lib (lit ''hello''))
   \<and> fs fresh_world (join ideas_path (lit ''assets'')) = None
   \<and> fs (snd (process_page_content plain_lib (text_net (lit ''hello'')) missing_net (lit ''p1'')
               (join ideas_path (lit ''assets'')) 3 fresh_world))
        (join ideas_path (lit ''assets'')) = Some Dir"
  by (simp add: eval_defs no_media_def plain_lib_def text_net_def fresh_world_def page_world_def
      ideas_path_def)

text \<open>
  C8, amended. \<open>process_page_content\<close> creates the assets directory, when it does not
  exist yet, as soon as the content has been retrieved and before it looks at any media
  element: for a page without a media element that has a usable source, the call is the
  retrieval followed by the creation of the directory and changes nothing else; when the
  directory exists already the retrieval is all that happens. When the retrieval
  fails, the call returns \<open>None\<close> and the file system is as it was.
\<close>

theorem assets_dir_created_on_retrieval:
  "(content_attempts cnet (page_url page_id) [0..<nat retries] w = (Data (Some html), w1)
      \<and> html \<noteq> [] \<and> no_media (parse lib html) \<longrightarrow>
      fs w1 = fs w
      \<and> process_page_content lib cnet mnet page_id assets_dir retries w =
          (case ensure_dir assets_dir w1 of
             (Some e, w2) \<Rightarrow> (Inl e, w2)
           | (None, w2) \<Rightarrow> (Inr (Some (doc_str lib (parse lib html))), w2))
      \<and> (\<not> exists w assets_dir \<and> fst (ensure_dir assets_dir w1) = None \<longrightarrow>
           fs (snd (process_page_content lib cnet mnet page_id assets_dir retries w)) assets_dir
             = Some Dir
           \<and> log (snd (process_page_content lib cnet mnet page_id assets_dir retries w))
             = log w1 @ [Mkdirs assets_dir])
      \<and> (exists w assets_dir \<longrightarrow>
           snd (process_page_content lib cnet mnet page_id assets_dir retries w) = w1))
   \<and> (content_attempts cnet (page_url page_id) [0..<nat retries] w = (Data None, w1) \<longrightarrow>
      process_page_content lib cnet mnet page_id assets_dir retries w = (Inr None, w1)
      \<and> fs w1 = fs w)"
proof (intro conjI impI)
  assume a: "content_attempts cnet (page_url page_id) [0..<nat retries] w = (Data (Some html), w1)
      \<and> html \<noteq> [] \<and> no_media (parse lib html)"
  from a content_attempts_fs [of cnet "page_url page_id" "[0..<nat retries]" w]
  show same: "fs w1 = fs w" by simp
  from a show run: "process_page_content lib cnet mnet page_id assets_dir retries w =
          (case ensure_dir assets_dir w1 of
             (Some e, w2) \<Rightarrow> (Inl e, w2)
           | (None, w2) \<Rightarrow> (Inr (Some (doc_str lib (parse lib html))), w2))"
    by (simp add: process_page_content_def rewrite_media_no_media split: prod.splits option.splits)
  {
    assume b: "\<not> exists w assets_dir \<and> fst (ensure_dir assets_dir w1) = None"
    with same have ne: "\<not> exists w1 assets_dir" by (simp add: exists_def)
    then have p: "assets_dir \<noteq> []" by (auto simp: exists_def)
    obtain f where f: "mk_prefixes (fs w1) [] assets_dir = (None, f)"
      using b ne by (cases "mk_prefixes (fs w1) [] assets_dir")
        (auto simp: ensure_dir_def makedirs_def)
    from mk_prefixes_made [OF f p] have made: "f assets_dir = Some Dir" by simp
    from ne f have en: "ensure_dir assets_dir w1
        = (None, w1\<lparr>log := log w1 @ [Mkdirs assets_dir], fs := f\<rparr>)"
      by (simp add: ensure_dir_def makedirs_def)
    from run en made
    show "fs (snd (process_page_content lib cnet mnet page_id assets_dir retries w)) assets_dir
             = Some Dir" by simp
    from run en
    show "log (snd (process_page_content lib cnet mnet page_id assets_dir retries w))
             = log w1 @ [Mkdirs assets_dir]" by simp
  }
  {
    assume "exists w assets_dir"
    with same have "exists w1 assets_dir" by (simp add: exists_def)
    with run show "snd (process_page_content lib cnet mnet page_id assets_dir retries w) = w1"
      by (simp add: ensure_dir_def)
  }
next
  assume a: "content_attempts cnet (page_url page_id) [0..<nat retries] w = (Data None, w1)"
  then show "process_page_content lib cnet mnet page_id assets_dir retries w = (Inr None, w1)"
    by (simp add: process_page_content_def)
  from a content_attempts_fs [of cnet "page_url page_id" "[0..<nat retries]" w]
  show "fs w1 = fs w" by simp
qed

text \<open>
  The plain page \<open>hello\<close>: one request, then the directory is made, and the text comes
  back as it was.
\<close>

theorem assets_dir_created_on_retrieval_witness:
  "fst (process_page_content plain_lib (text_net (lit ''hello'')) missing_net (lit ''p1'')
          (join ideas_path (lit ''assets'')) 3 fresh_world) = Inr (Some (lit ''hello''))
   \<and> log (snd (process_page_content plain_lib (text_net (lit ''hello'')) missing_net (lit ''p1'')
          (join ideas_path (lit ''assets'')) 3 fresh_world))
       = [Get Content (page_url (lit ''p1'')), Mkdirs (join ideas_path (lit ''assets''))]"
  using assets_dir_created_on_retrieval [where cnet="text_net (lit ''hello'')" and mnet=missing_net
      and page_id="lit ''p1''" and retries=3 and w=fresh_world and html="lit ''hello''"
      and lib=plain_lib and assets_dir="join ideas_path (lit ''assets'')"
      and ?w1.0="fresh_world\<lparr>clock := 1, log := [Get Content (page_url (lit ''p1''))]\<rparr>"]
  by (simp add: eval_defs no_media_def plain_lib_def text_net_def fresh_world_def page_world_def
      ideas_path_def)

section \<open>C9: exceptions past the component boundary\<close>

text \<open>
  C9. The downloader returns a truth value in every case (\<open>download_file\<close> catches every
  exception). The fetcher does not: a 429 whose \<open>Retry-After\<close> header is an HTTP date
  makes \<open>int\<close> raise \<open>ValueError\<close>, which the fetcher's handler for \<open>requests\<close>
  exceptions does not catch, and the exception leaves \<open>fetch_json\<close> after the first
  request.
\<close>

theorem fetch_json_raises_on_http_date:
  "outcome (fetch_json dated_net (lit ''u'') 5 False w0)
     = Some (Inl ValueError, 1, [Get Listing (lit ''u'')])
   \<and> fst (download_file dated_media_net (lit ''u'') [lit ''f''] 3 w0) = True
   \<and> log (snd (download_file dated_media_net (lit ''u'') [lit ''f''] 3 w0))
     = [Get Media (lit ''u''), Sleep 1, Get Media (lit ''u''), Wrote [lit ''f'']]"
  by (simp add: eval_defs dated_net_def dated_media_net_def)

section \<open>C10: a download that is refused\<close>

text \<open>
  C10. When every request of \<open>download_file\<close> gets a status that is neither 200, nor 429,
  nor a server error, it makes exactly \<open>retries\<close> requests and nothing else: no sleep, no
  file opened, the file system untouched; and it returns \<open>False\<close>.
\<close>

theorem download_refused:
  assumes "\<forall>k<nat retries. rejected (net (clock w + k) url)"
  shows "download_file net url save_path retries w =
           (False, w\<lparr>clock := clock w + nat retries,
                      log := log w @ replicate (nat retries) (Get Media url)\<rparr>)
         \<and> fs (snd (download_file net url save_path retries w)) = fs w
         \<and> sleeps (log (snd (download_file net url save_path retries w))) = sleeps (log w)"
proof -
  have run: "download_file net url save_path retries w =
           (False, w\<lparr>clock := clock w + nat retries,
                      log := log w @ replicate (nat retries) (Get Media url)\<rparr>)"
    using download_attempts_rejected [where net=net and w=w and url=url and save_path=save_path
        and rng="[0..<nat retries]"] assms
    by (simp add: download_file_def)
  have "sleeps (replicate n (Get Media url)) = []" for n
    by (induction n) (simp_all add: sleeps_def)
  with run show ?thesis by (simp add: sleeps_append)
qed

text \<open>A persistent 404 with the default budget: three requests and \<open>False\<close>.\<close>

theorem download_refused_witness:
  "download_file missing_net (lit ''u'') [lit ''f''] 3 w0 =
     (False, w0\<lparr>clock := 3,
                 log := [Get Media (lit ''u''), Get Media (lit ''u''), Get Media (lit ''u'')]\<rparr>)
   \<and> fs (snd (download_file missing_net (lit ''u'') [lit ''f''] 3 w0)) [lit ''f''] = None"
  using download_refused [where net=missing_net and url="lit ''u''" and w=w0 and retries=3
      and save_path="[lit ''f'']"]
  by (simp add: missing_net_def rejected_def w0_def numeral_eq_Suc)

end
